theory Spec2Isabelle
  imports Main
begin

section \<open>The SampSharp plugin bridge (src/SampSharp/main.cpp)\<close>

text \<open>
  The plugin is a handful of entry points that the host server calls one at a time on one
  thread. Each entry point is a sequence of calls into collaborators that are declared in
  headers outside main.cpp (sampgdk, Config, PathUtil, MonoRuntime, GameMode, the mono
  helpers). The model threads one \<open>state\<close> record through those calls: the file-level flag
  \<open>filterscript_loaded\<close>, the global \<open>pAMXFunctions\<close>, the two lifecycle flags that
  \<open>MonoRuntime::IsLoaded()\<close> and \<open>GameMode::IsLoaded()\<close> report, and the list of calls
  made into the collaborators so far, in the order in which they were made.
\<close>

subsection \<open>Data\<close>

type_synonym addr = nat

text \<open>An argument passed to \<open>logprintf\<close> after the format string.\<close>

datatype fmt_arg = ArgStr string | ArgInt int

text \<open>One call from main.cpp into a collaborator, with the arguments it was given.\<close>

datatype event =
    EvLog string "fmt_arg list"
  | EvSendRconCommand string
  | EvMonoLoad string string string string
  | EvMonoUnload
  | EvSetCodepage int
  | EvIfstreamOpen string
  | EvMonoConvertSymbols string
  | EvGameModeLoad string string
  | EvGameModeUnload
  | EvGameModeProcessTick
  | EvGameModeProcessPublicCall addr string addr addr
  | EvSampgdkLoad
  | EvSampgdkUnload
  | EvSampgdkProcessTick
  | EvConfigRead

text \<open>
  Modelled from the spec: the class \<open>Config\<close> is missing. The record holds the values its
  \<open>Get...\<close> accessors return, read once and not changed afterwards. main.cpp uses each as
  a \<open>std::string\<close> except the codepage, an \<open>int\<close>, and the trace level, which it passes on
  unread.
\<close>

record config =
  SymbolFiles :: string
  MonoAssemblyDir :: string
  MonoConfigDir :: string
  TraceLevel :: string
  Codepage :: int
  GameModeNameSpace :: string
  GameModeClass :: string

text \<open>
  What main.cpp cannot decide by itself: the configuration, the two directories that
  \<open>PathUtil\<close> knows, the two constants of the plugin SDK that main.cpp names, which files
  \<open>std::ifstream\<close> can open, and the results of \<open>sampgdk::Load\<close> and \<open>GameMode::Load\<close>. The
  last two may differ from one call to the next, so they are functions of the calls made
  so far.
\<close>

record env =
  cfg :: config
  plugin_bin_dir :: string
  GameModeDirectory :: string
  PLUGIN_DATA_AMX_EXPORTS :: nat
  PLUGIN_VERSION :: string
  file_openable :: "string \<Rightarrow> bool"
  sampgdk_load_result :: "event list \<Rightarrow> bool"
  gamemode_load_result :: "event list \<Rightarrow> bool"

record state =
  filterscript_loaded :: bool
  pAMXFunctions :: addr
  mono_loaded :: bool
  gamemode_loaded :: bool
  trace :: "event list"

text \<open>
  The state of a fresh process: \<open>bool filterscript_loaded = false\<close> (main.cpp line 32), a
  null \<open>pAMXFunctions\<close>, nothing loaded and no call made.
\<close>

definition initial_state :: state where
  "initial_state =
     \<lparr>filterscript_loaded = False, pAMXFunctions = 0, mono_loaded = False,
      gamemode_loaded = False, trace = []\<rparr>"

subsection \<open>The collaborators\<close>

text \<open>
  The functions of this subsection are declared in headers outside main.cpp. The bridge
  sees of each only that it was called, and of some a result or a lifecycle flag.
\<close>

text \<open>Recording one call.\<close>

definition emit :: "event \<Rightarrow> state \<Rightarrow> state" where
  "emit e st = st\<lparr>trace := trace st @ [e]\<rparr>"

text \<open>
  Modelled from the spec: \<open>sampgdk::logprintf\<close> is missing. It produces one log line, which
  the bridge never reads back.
\<close>

definition logprintf :: "string \<Rightarrow> fmt_arg list \<Rightarrow> state \<Rightarrow> state" where
  "logprintf fmt args = emit (EvLog fmt args)"

text \<open>
  Modelled from the spec: \<open>SendRconCommand\<close> is missing. It passes a request to the host
  server.
\<close>

definition SendRconCommand :: "string \<Rightarrow> state \<Rightarrow> state" where
  "SendRconCommand cmd = emit (EvSendRconCommand cmd)"

text \<open>
  Modelled from the spec: \<open>set_codepage\<close> is missing. It applies a codepage to the native
  string-encoding subsystem.
\<close>

definition set_codepage :: "int \<Rightarrow> state \<Rightarrow> state" where
  "set_codepage cp = emit (EvSetCodepage cp)"

text \<open>
  Modelled from the spec: \<open>mono_convert_symbols\<close> is missing. It is the managed runtime's
  symbol-conversion facility, called on one path.
\<close>

definition mono_convert_symbols :: "string \<Rightarrow> state \<Rightarrow> state" where
  "mono_convert_symbols path = emit (EvMonoConvertSymbols path)"

text \<open>
  Modelled from the spec: \<open>Config::Read\<close> is missing. It reads the configuration snapshot;
  the values read are those of \<open>cfg\<close>.
\<close>

definition Config_Read :: "state \<Rightarrow> state" where
  "Config_Read = emit EvConfigRead"

text \<open>
  Modelled from the spec: \<open>sampgdk::Unload\<close> is missing. It is the base integration layer's
  own detach.
\<close>

definition sampgdk_Unload :: "state \<Rightarrow> state" where
  "sampgdk_Unload = emit EvSampgdkUnload"

text \<open>
  Modelled from the spec: \<open>sampgdk::ProcessTick\<close> is missing. It is the host server's own
  per-tick housekeeping.
\<close>

definition sampgdk_ProcessTick :: "state \<Rightarrow> state" where
  "sampgdk_ProcessTick = emit EvSampgdkProcessTick"

text \<open>
  Modelled from the spec: \<open>sampgdk::Load\<close> is missing. It is the base integration layer's
  own attach and reports success or failure. It is given the array \<open>ppData\<close>, which the
  recorded call leaves out.
\<close>

definition sampgdk_Load :: "env \<Rightarrow> state \<Rightarrow> bool \<times> state" where
  "sampgdk_Load env st = (sampgdk_load_result env (trace st), emit EvSampgdkLoad st)"

text \<open>
  Modelled from the spec: \<open>PathUtil::GetPathInBin\<close> is missing. It places a relative path
  under the directory of the plugin binary.
\<close>

definition GetPathInBin :: "env \<Rightarrow> string \<Rightarrow> string" where
  "GetPathInBin env p = plugin_bin_dir env @ ''/'' @ p"

text \<open>
  Modelled from the spec: \<open>PathUtil::GetGameModeDirectory\<close> is missing. It is the directory
  the symbol files are resolved in; main.cpp appends the file name to it directly.
\<close>

definition GetGameModeDirectory :: "env \<Rightarrow> string" where
  "GetGameModeDirectory env = GameModeDirectory env"

text \<open>
  \<open>std::ifstream ifile(path.c_str())\<close> followed by the test \<open>!ifile\<close>: the stream is good
  when the file could be opened.
\<close>

definition ifstream_open :: "env \<Rightarrow> string \<Rightarrow> state \<Rightarrow> bool \<times> state" where
  "ifstream_open env path st = (file_openable env path, emit (EvIfstreamOpen path) st)"

text \<open>
  Modelled from the spec: \<open>MonoRuntime::IsLoaded\<close> is missing. It reports the lifecycle
  state of the Managed Runtime Handle.
\<close>

definition MonoRuntime_IsLoaded :: "state \<Rightarrow> bool" where
  "MonoRuntime_IsLoaded st = mono_loaded st"

text \<open>
  Modelled from the spec: \<open>MonoRuntime::Load\<close> is missing. It returns nothing; the runtime
  is loaded afterwards and remains loaded until \<open>Unload\<close>.
\<close>

definition MonoRuntime_Load :: "string \<Rightarrow> string \<Rightarrow> string \<Rightarrow> string \<Rightarrow> state \<Rightarrow> state" where
  "MonoRuntime_Load assemblyDir configDir traceLevel entryPath st =
     (emit (EvMonoLoad assemblyDir configDir traceLevel entryPath) st)\<lparr>mono_loaded := True\<rparr>"

text \<open>
  Modelled from the spec: \<open>MonoRuntime::Unload\<close> is missing. It is safe in every state and
  leaves the runtime unloaded.
\<close>

definition MonoRuntime_Unload :: "state \<Rightarrow> state" where
  "MonoRuntime_Unload st = (emit EvMonoUnload st)\<lparr>mono_loaded := False\<rparr>"

text \<open>
  Modelled from the spec: \<open>GameMode::IsLoaded\<close> is missing. It reports the lifecycle state
  of the GameMode Handle.
\<close>

definition GameMode_IsLoaded :: "state \<Rightarrow> bool" where
  "GameMode_IsLoaded st = gamemode_loaded st"

text \<open>
  Modelled from the spec: \<open>GameMode::Load\<close> is missing. It reports whether it succeeded;
  the game mode is loaded afterwards when it did and stays unloaded when it did not.
  main.cpp calls it only while the game mode is not loaded.
\<close>

definition GameMode_Load :: "env \<Rightarrow> string \<Rightarrow> string \<Rightarrow> state \<Rightarrow> bool \<times> state" where
  "GameMode_Load env namespaceName className st =
     (let ok = gamemode_load_result env (trace st)
      in (ok, (emit (EvGameModeLoad namespaceName className) st)\<lparr>gamemode_loaded := ok\<rparr>))"

text \<open>
  Modelled from the spec: \<open>GameMode::Unload\<close> is missing. It is safe in every state and
  leaves the game mode unloaded.
\<close>

definition GameMode_Unload :: "state \<Rightarrow> state" where
  "GameMode_Unload st = (emit EvGameModeUnload st)\<lparr>gamemode_loaded := False\<rparr>"

text \<open>
  Modelled from the spec: \<open>GameMode::ProcessTick\<close> is missing. It makes no lifecycle
  decision.
\<close>

definition GameMode_ProcessTick :: "state \<Rightarrow> state" where
  "GameMode_ProcessTick = emit EvGameModeProcessTick"

text \<open>
  Modelled from the spec: \<open>GameMode::ProcessPublicCall\<close> is missing. It hands one event to
  the game mode and does not change what \<open>IsLoaded\<close> reports; main.cpp ignores its result.
\<close>

definition GameMode_ProcessPublicCall :: "addr \<Rightarrow> string \<Rightarrow> addr \<Rightarrow> addr \<Rightarrow> state \<Rightarrow> state" where
  "GameMode_ProcessPublicCall amx name params retval =
     emit (EvGameModeProcessPublicCall amx name params retval)"

subsection \<open>Symbol conversion (main.cpp lines 34 to 62)\<close>

text \<open>
  \<open>std::getline(stream, file, delim)\<close> on what is left of the stream: it fails when nothing
  is left; otherwise it takes the characters up to the first delimiter or the end, and
  discards that delimiter.
\<close>

definition getline :: "string \<Rightarrow> char \<Rightarrow> (string \<times> string) option" where
  "getline stream delim =
     (if stream = [] then None
      else Some (takeWhile (\<lambda>c. c \<noteq> delim) stream, drop 1 (dropWhile (\<lambda>c. c \<noteq> delim) stream)))"

text \<open>
  The \<open>while (std::getline(symbols_stream, file, ' '))\<close> loop with its counter. The
  counter \<open>int successes\<close> is raised at most once for each name read, so it stays far
  below the range of a C++ \<open>int\<close> for every list a configuration file can hold; it is an
  \<open>int\<close> here.
\<close>

function convert_loop :: "env \<Rightarrow> string \<Rightarrow> int \<Rightarrow> state \<Rightarrow> int \<times> state" where
  "convert_loop env stream successes st =
     (case getline stream CHR '' '' of
        None \<Rightarrow> (successes, st)
      | Some (file, rest) \<Rightarrow>
          (let st1 = logprintf ''Converting: %s'' [ArgStr file] st;
               path = GetGameModeDirectory env @ file;
               (ifile, st2) = ifstream_open env path st1
           in if file = [] \<or> \<not> ifile
              then convert_loop env rest successes (logprintf ''  Failed.'' [] st2)
              else convert_loop env rest (successes + 1)
                     (logprintf ''  Converted.'' [] (mono_convert_symbols path st2))))"
  by pat_completeness auto
termination
proof (relation "measure (\<lambda>(env, stream, successes, st). length stream)")
  have shorter: "length rest < length stream"
    if "getline stream CHR '' '' = Some (tok, rest)" for stream tok rest
  proof -
    from that have ne: "stream \<noteq> []"
      and r: "rest = drop 1 (dropWhile (\<lambda>c. c \<noteq> CHR '' '') stream)"
      by (auto simp: getline_def split: if_splits)
    have "length (dropWhile (\<lambda>c. c \<noteq> CHR '' '') stream) \<le> length stream"
      by (rule length_dropWhile_le)
    with ne r show ?thesis
      by (cases stream) auto
  qed
  show "wf (measure (\<lambda>(env, stream, successes, st). length stream))"
    by simp
  show "((env, rest, successes, logprintf ''  Failed.'' [] st2), env, stream, successes, st)
          \<in> measure (\<lambda>(env, stream, successes, st). length stream)"
    if "getline stream CHR '' '' = Some x2" "(tok, rest) = x2"
    for env :: env and successes :: int and st st2 :: state and stream x2 tok rest
    using that shorter [of stream tok rest] by simp
  show "((env, rest, successes + 1, logprintf ''  Converted.'' [] (mono_convert_symbols path st2)),
           env, stream, successes, st)
          \<in> measure (\<lambda>(env, stream, successes, st). length stream)"
    if "getline stream CHR '' '' = Some x2" "(tok, rest) = x2"
    for env :: env and successes :: int and st st2 :: state and stream x2 tok rest path
    using that shorter [of stream tok rest] by simp
qed

declare convert_loop.simps [simp del]

definition convertSymbols :: "env \<Rightarrow> state \<Rightarrow> state" where
  "convertSymbols env st =
     (let symbols = SymbolFiles (cfg env)
      in if length symbols > 0
         then (let st1 = logprintf ''Symbol file generation'' [] st;
                   st2 = logprintf ''----------------------'' [] st1;
                   (successes, st3) = convert_loop env symbols 0 st2;
                   st4 = logprintf '' Converted %d files.'' [ArgInt successes] st3
               in logprintf [] [] st4)
         else st)"

subsection \<open>Loading and unloading the game mode (main.cpp lines 64 to 119)\<close>

definition loadGamemode :: "env \<Rightarrow> state \<Rightarrow> state" where
  "loadGamemode env st =
     (if GameMode_IsLoaded st then st
      else
        (let st1 = (if \<not> filterscript_loaded st
                    then (SendRconCommand ''loadfs empty'' st)\<lparr>filterscript_loaded := True\<rparr>
                    else st);
             st2 = (if \<not> MonoRuntime_IsLoaded st1
                    then MonoRuntime_Load (MonoAssemblyDir (cfg env)) (MonoConfigDir (cfg env))
                           (TraceLevel (cfg env))
                           (GetPathInBin env ''gamemode/'' @ GameModeNameSpace (cfg env) @ ''.dll'')
                           st1
                    else st1);
             codepage = Codepage (cfg env);
             st3 = set_codepage codepage st2;
             st4 = convertSymbols env st3;
             namespaceName = GameModeNameSpace (cfg env);
             className = GameModeClass (cfg env);
             st5 = logprintf ''Gamemode'' [] st4;
             st6 = logprintf ''---------------'' [] st5;
             st7 = logprintf ''Loading gamemode: %s:%s'' [ArgStr namespaceName, ArgStr className] st6;
             (ok, st8) = GameMode_Load env (GameModeNameSpace (cfg env)) (GameModeClass (cfg env)) st7;
             st9 = (if ok then logprintf ''  Loaded.'' [] st8 else logprintf ''  Failed.'' [] st8)
         in logprintf [] [] st9))"

definition unloadGamemode :: "env \<Rightarrow> state \<Rightarrow> state" where
  "unloadGamemode env st =
     (if \<not> GameMode_IsLoaded st then st
      else
        (let namespase = GameModeNameSpace (cfg env);
             klass = GameModeClass (cfg env);
             st1 = logprintf [] [] st;
             st2 = logprintf ''---------------'' [] st1;
             st3 = logprintf ''Unloading gamemode: %s:%s'' [ArgStr namespase, ArgStr klass] st2;
             st4 = GameMode_Unload st3;
             st5 = logprintf ''  Unloaded.'' [] st4
         in logprintf [] [] st5))"

subsection \<open>The entry points (main.cpp lines 125 to 167)\<close>

text \<open>
  \<open>Load(void **ppData)\<close>: main.cpp reads the array \<open>ppData\<close> at one index only, so it is
  given as the function from an index to the pointer stored there.
\<close>

definition Load :: "env \<Rightarrow> (nat \<Rightarrow> addr) \<Rightarrow> state \<Rightarrow> bool \<times> state" where
  "Load env ppData st =
     (let (ok, st1) = sampgdk_Load env st
      in if \<not> ok then (False, st1)
         else
           (let st2 = st1\<lparr>pAMXFunctions := ppData (PLUGIN_DATA_AMX_EXPORTS env)\<rparr>;
                st3 = logprintf [] [] st2;
                st4 = logprintf ''SampSharp Plugin'' [] st3;
                st5 = logprintf ''----------------'' [] st4;
                st6 = logprintf ''v%s, (C)2014-2015 Tim Potze'' [ArgStr (PLUGIN_VERSION env)] st5;
                st7 = logprintf [] [] st6;
                st8 = Config_Read st7
            in (True, st8)))"

definition Unload :: "state \<Rightarrow> state" where
  "Unload st = sampgdk_Unload (MonoRuntime_Unload (GameMode_Unload st))"

definition ProcessTick :: "state \<Rightarrow> state" where
  "ProcessTick st = sampgdk_ProcessTick (GameMode_ProcessTick st)"

definition OnPublicCall :: "env \<Rightarrow> addr \<Rightarrow> string \<Rightarrow> addr \<Rightarrow> addr \<Rightarrow> state \<Rightarrow> bool \<times> state" where
  "OnPublicCall env amx name params retval st =
     (let st1 = (if name = ''OnGameModeInit'' then loadGamemode env st
                 else if GameMode_IsLoaded st \<and> name = ''OnGameModeExit''
                 then unloadGamemode env (GameMode_ProcessPublicCall amx name params retval st)
                 else st);
          st2 = (if GameMode_IsLoaded st1
                 then GameMode_ProcessPublicCall amx name params retval st1
                 else st1)
      in (True, st2))"

subsection \<open>Observing a run\<close>

text \<open>The calls made between an earlier state and a later one.\<close>

definition events_since :: "state \<Rightarrow> state \<Rightarrow> event list" where
  "events_since st st' = drop (length (trace st)) (trace st')"

fun is_public_call :: "event \<Rightarrow> bool" where
  "is_public_call (EvGameModeProcessPublicCall amx name params retval) = True"
| "is_public_call _ = False"

fun is_log :: "event \<Rightarrow> bool" where
  "is_log (EvLog fmt args) = True"
| "is_log _ = False"

fun is_convert_call :: "event \<Rightarrow> bool" where
  "is_convert_call (EvMonoConvertSymbols path) = True"
| "is_convert_call _ = False"

definition count_where :: "(event \<Rightarrow> bool) \<Rightarrow> event list \<Rightarrow> nat" where
  "count_where P evs = length (filter P evs)"

definition count_event :: "event \<Rightarrow> event list \<Rightarrow> nat" where
  "count_event e evs = count_where (\<lambda>x. x = e) evs"

text \<open>
  \<open>occurs_before a b evs\<close>: the call \<open>a\<close> is made, the call \<open>b\<close> is made after it, and \<open>b\<close> is
  not made before the first \<open>a\<close>.
\<close>

definition occurs_before :: "event \<Rightarrow> event \<Rightarrow> event list \<Rightarrow> bool" where
  "occurs_before a b evs =
     (a \<in> set evs \<and> b \<notin> set (takeWhile (\<lambda>e. e \<noteq> a) evs) \<and> b \<in> set (dropWhile (\<lambda>e. e \<noteq> a) evs))"

text \<open>The host's calls into the plugin, and a run of several of them.\<close>

datatype host_call =
    CallLoad "nat \<Rightarrow> addr"
  | CallUnload
  | CallProcessTick
  | CallOnPublicCall addr string addr addr

fun host_step :: "env \<Rightarrow> host_call \<Rightarrow> state \<Rightarrow> state" where
  "host_step env (CallLoad ppData) st = snd (Load env ppData st)"
| "host_step env CallUnload st = Unload st"
| "host_step env CallProcessTick st = ProcessTick st"
| "host_step env (CallOnPublicCall amx name params retval) st =
     snd (OnPublicCall env amx name params retval st)"

fun host_run :: "env \<Rightarrow> host_call list \<Rightarrow> state \<Rightarrow> state" where
  "host_run env [] st = st"
| "host_run env (c # cs) st = host_run env cs (host_step env c st)"

subsection \<open>Parts of a run that the properties name\<close>

text \<open>The request for the bootstrap filterscript (main.cpp line 69).\<close>

definition filterscript_request :: event where
  "filterscript_request = EvSendRconCommand ''loadfs empty''"

text \<open>The kinds of call that \<open>convertSymbols\<close> makes.\<close>

fun is_symbol_event :: "event \<Rightarrow> bool" where
  "is_symbol_event (EvLog fmt args) = True"
| "is_symbol_event (EvIfstreamOpen path) = True"
| "is_symbol_event (EvMonoConvertSymbols path) = True"
| "is_symbol_event _ = False"

text \<open>The calls that \<open>convertSymbols\<close> makes when it starts from a fresh process.\<close>

definition convertSymbols_events :: "env \<Rightarrow> event list" where
  "convertSymbols_events env = trace (convertSymbols env initial_state)"

subsection \<open>The contract of symbol conversion\<close>

text \<open>
  A second description of the symbol-conversion step, written from its contract and not
  from the loop, to be compared with \<open>convertSymbols\<close>. The names of a list are its parts
  between single spaces, an empty part counting as a name, except that nothing follows a
  final space.
\<close>

fun names_from :: "string \<Rightarrow> string \<Rightarrow> string list" where
  "names_from cur [] = (if cur = [] then [] else [cur])"
| "names_from cur (c # cs) =
     (if c = CHR '' '' then cur # names_from [] cs else names_from (cur @ [c]) cs)"

definition symbol_names :: "string \<Rightarrow> string list" where
  "symbol_names symbols = names_from [] symbols"

text \<open>A name is converted when it is not empty and its file can be opened.\<close>

definition convertible :: "env \<Rightarrow> string \<Rightarrow> bool" where
  "convertible env name = (name \<noteq> [] \<and> file_openable env (GetGameModeDirectory env @ name))"

text \<open>
  For one name: the name is logged and its file is opened under the game-mode directory;
  then either the conversion facility is called on that path and the success is logged,
  or the failure is logged.
\<close>

definition calls_for_name :: "env \<Rightarrow> string \<Rightarrow> event list" where
  "calls_for_name env name =
     [EvLog ''Converting: %s'' [ArgStr name], EvIfstreamOpen (GetGameModeDirectory env @ name)] @
     (if convertible env name
      then [EvMonoConvertSymbols (GetGameModeDirectory env @ name), EvLog ''  Converted.'' []]
      else [EvLog ''  Failed.'' []])"

text \<open>
  For the configured list: nothing when it is empty; otherwise two header lines, the
  calls for each name in turn, the number of names converted, and an empty line.
\<close>

definition symbol_conversion_calls :: "env \<Rightarrow> event list" where
  "symbol_conversion_calls env =
     (if SymbolFiles (cfg env) = [] then []
      else [EvLog ''Symbol file generation'' [], EvLog ''----------------------'' []] @
           concat (map (calls_for_name env) (symbol_names (SymbolFiles (cfg env)))) @
           [EvLog '' Converted %d files.''
              [ArgInt (int (length (filter (convertible env)
                                      (symbol_names (SymbolFiles (cfg env))))))],
            EvLog [] []])"

subsection \<open>A concrete configuration\<close>

text \<open>
  A configuration whose symbol-file list is \<open>a.dbg\<close> and \<open>b.dbg\<close> with two spaces between
  them, in a file system where only \<open>gamemode/a.dbg\<close> can be opened.
\<close>

definition example_config :: config where
  "example_config =
     \<lparr>SymbolFiles = ''a.dbg  b.dbg'', MonoAssemblyDir = ''mono/lib'', MonoConfigDir = ''mono/etc'',
      TraceLevel = ''error'', Codepage = 1252, GameModeNameSpace = ''GrandLarc'',
      GameModeClass = ''GameMode''\<rparr>"

definition example_env :: env where
  "example_env =
     \<lparr>cfg = example_config, plugin_bin_dir = ''plugins'', GameModeDirectory = ''gamemode/'',
      PLUGIN_DATA_AMX_EXPORTS = 16, PLUGIN_VERSION = ''0.6.0'',
      file_openable = (\<lambda>path. path = ''gamemode/a.dbg''),
      sampgdk_load_result = (\<lambda>tr. True), gamemode_load_result = (\<lambda>tr. True)\<rparr>"

text \<open>A state in which the filterscript was requested and both handles are loaded.\<close>

definition loaded_state :: state where
  "loaded_state =
     \<lparr>filterscript_loaded = True, pAMXFunctions = 4096, mono_loaded = True,
      gamemode_loaded = True, trace = []\<rparr>"

text \<open>Two init/exit cycles of the host, followed by the detach.\<close>

definition example_calls :: "host_call list" where
  "example_calls =
     [CallOnPublicCall 1 ''OnGameModeInit'' 2 3, CallOnPublicCall 1 ''OnPlayerConnect'' 2 3,
      CallOnPublicCall 1 ''OnGameModeExit'' 2 3, CallOnPublicCall 1 ''OnGameModeInit'' 2 3,
      CallOnPublicCall 1 ''OnGameModeExit'' 2 3, CallUnload]"

section \<open>Properties\<close>

subsection \<open>Calls and counts\<close>

lemmas collab_defs = logprintf_def SendRconCommand_def set_codepage_def mono_convert_symbols_def
  Config_Read_def sampgdk_Unload_def sampgdk_ProcessTick_def sampgdk_Load_def ifstream_open_def
  MonoRuntime_IsLoaded_def MonoRuntime_Load_def MonoRuntime_Unload_def GameMode_IsLoaded_def
  GameMode_Load_def GameMode_Unload_def GameMode_ProcessTick_def GameMode_ProcessPublicCall_def
  GetPathInBin_def GetGameModeDirectory_def

lemma trace_emit [simp]: "trace (emit e st) = trace st @ [e]"
  by (simp add: emit_def)

lemma flags_emit [simp]:
  "filterscript_loaded (emit e st) = filterscript_loaded st"
  "mono_loaded (emit e st) = mono_loaded st"
  "gamemode_loaded (emit e st) = gamemode_loaded st"
  "pAMXFunctions (emit e st) = pAMXFunctions st"
  by (simp_all add: emit_def)

lemma count_where_Nil [simp]: "count_where P [] = 0"
  by (simp add: count_where_def)

lemma count_where_Cons [simp]:
  "count_where P (e # evs) = (if P e then 1 else 0) + count_where P evs"
  by (simp add: count_where_def)

lemma count_where_append [simp]:
  "count_where P (xs @ ys) = count_where P xs + count_where P ys"
  by (simp add: count_where_def)

lemma count_where_none: "(\<And>e. e \<in> set evs \<Longrightarrow> \<not> P e) \<Longrightarrow> count_where P evs = 0"
  by (induction evs) simp_all

lemma count_where_zeroD: "count_where P evs = 0 \<Longrightarrow> e \<in> set evs \<Longrightarrow> \<not> P e"
  by (induction evs) (auto split: if_splits)

lemma occurs_beforeI:
  assumes "a \<notin> set pre" and "b \<notin> set pre" and "b \<in> set post"
  shows "occurs_before a b (pre @ a # post)"
proof -
  have "takeWhile (\<lambda>e. e \<noteq> a) (pre @ a # post) = pre"
    using assms(1) by (subst takeWhile_append2) auto
  moreover have "dropWhile (\<lambda>e. e \<noteq> a) (pre @ a # post) = a # post"
    using assms(1) by (subst dropWhile_append2) auto
  ultimately show ?thesis
    using assms(2,3) by (simp add: occurs_before_def)
qed

subsection \<open>Symbol conversion only appends its own calls\<close>

lemma getline_shorter:
  assumes "getline stream delim = Some (tok, rest)"
  shows "length rest < length stream"
proof -
  from assms have ne: "stream \<noteq> []"
    and r: "rest = drop 1 (dropWhile (\<lambda>c. c \<noteq> delim) stream)"
    by (auto simp: getline_def split: if_splits)
  have "length (dropWhile (\<lambda>c. c \<noteq> delim) stream) \<le> length stream"
    by (rule length_dropWhile_le)
  with ne r show ?thesis
    by (cases stream) auto
qed

text \<open>
  The loop's count and the calls it makes depend on the environment, the list and the
  starting count only, never on the state it starts in; the calls are appended to the
  trace and nothing else changes.
\<close>

lemma convert_loop_frame:
  "\<exists>n' evs. list_all is_symbol_event evs \<and>
     (\<forall>st. convert_loop env stream n st = (n', st\<lparr>trace := trace st @ evs\<rparr>))"
proof (induction "length stream" arbitrary: stream n rule: less_induct)
  case less
  show ?case
  proof (cases "getline stream CHR '' ''")
    case None
    then have "\<forall>st. convert_loop env stream n st = (n, st\<lparr>trace := trace st @ []\<rparr>)"
      by (simp add: convert_loop.simps)
    moreover have "list_all is_symbol_event []"
      by simp
    ultimately show ?thesis
      by blast
  next
    case (Some p)
    obtain tok rest where p: "p = (tok, rest)"
      by (cases p)
    with Some have g: "getline stream CHR '' '' = Some (tok, rest)"
      by simp
    then have shorter: "length rest < length stream"
      by (rule getline_shorter)
    let ?path = "GameModeDirectory env @ tok"
    show ?thesis
    proof (cases "tok = [] \<or> \<not> file_openable env ?path")
      case True
      from less [OF shorter, of n] obtain n' evs where
        evs: "list_all is_symbol_event evs"
        and run: "\<And>st. convert_loop env rest n st = (n', st\<lparr>trace := trace st @ evs\<rparr>)"
        by blast
      let ?evs = "[EvLog ''Converting: %s'' [ArgStr tok], EvIfstreamOpen ?path,
                   EvLog ''  Failed.'' []] @ evs"
      have "convert_loop env stream n st = (n', st\<lparr>trace := trace st @ ?evs\<rparr>)" for st
        using True g
        by (subst convert_loop.simps) (simp add: run collab_defs emit_def Let_def)
      moreover have "list_all is_symbol_event ?evs"
        using evs by simp
      ultimately show ?thesis
        by blast
    next
      case False
      from less [OF shorter, of "n + 1"] obtain n' evs where
        evs: "list_all is_symbol_event evs"
        and run: "\<And>st. convert_loop env rest (n + 1) st = (n', st\<lparr>trace := trace st @ evs\<rparr>)"
        by blast
      let ?evs = "[EvLog ''Converting: %s'' [ArgStr tok], EvIfstreamOpen ?path,
                   EvMonoConvertSymbols ?path, EvLog ''  Converted.'' []] @ evs"
      have "convert_loop env stream n st = (n', st\<lparr>trace := trace st @ ?evs\<rparr>)" for st
        using False g
        by (subst convert_loop.simps) (simp add: run collab_defs emit_def Let_def)
      moreover have "list_all is_symbol_event ?evs"
        using evs by simp
      ultimately show ?thesis
        by blast
    qed
  qed
qed

lemma convertSymbols_frame_ex:
  "\<exists>evs. list_all is_symbol_event evs \<and>
     (\<forall>st. convertSymbols env st = st\<lparr>trace := trace st @ evs\<rparr>)"
proof (cases "SymbolFiles (cfg env) = []")
  case True
  then have "\<forall>st. convertSymbols env st = st\<lparr>trace := trace st @ []\<rparr>"
    by (simp add: convertSymbols_def)
  moreover have "list_all is_symbol_event []"
    by simp
  ultimately show ?thesis
    by blast
next
  case False
  from convert_loop_frame [of env "SymbolFiles (cfg env)" 0] obtain n' evs where
    evs: "list_all is_symbol_event evs"
    and run: "\<And>st. convert_loop env (SymbolFiles (cfg env)) 0 st
                = (n', st\<lparr>trace := trace st @ evs\<rparr>)"
    by blast
  let ?evs = "[EvLog ''Symbol file generation'' [], EvLog ''----------------------'' []] @ evs
              @ [EvLog '' Converted %d files.'' [ArgInt n'], EvLog [] []]"
  have "convertSymbols env st = st\<lparr>trace := trace st @ ?evs\<rparr>" for st
    using False by (simp add: convertSymbols_def run collab_defs emit_def)
  moreover have "list_all is_symbol_event ?evs"
    using evs by simp
  ultimately show ?thesis
    by blast
qed

lemma convertSymbols_frame:
  "convertSymbols env st = st\<lparr>trace := trace st @ convertSymbols_events env\<rparr>"
proof -
  from convertSymbols_frame_ex [of env] obtain evs where
    run: "\<And>st. convertSymbols env st = st\<lparr>trace := trace st @ evs\<rparr>"
    by blast
  have "convertSymbols_events env = evs"
    by (simp add: convertSymbols_events_def run initial_state_def)
  with run show ?thesis
    by simp
qed

lemma convertSymbols_events_kind: "list_all is_symbol_event (convertSymbols_events env)"
proof -
  from convertSymbols_frame_ex [of env] obtain evs where
    evs: "list_all is_symbol_event evs"
    and run: "\<And>st. convertSymbols env st = st\<lparr>trace := trace st @ evs\<rparr>"
    by blast
  have "convertSymbols_events env = evs"
    by (simp add: convertSymbols_events_def run initial_state_def)
  with evs show ?thesis
    by simp
qed

lemma symbol_events_no_public_call:
  "count_where is_public_call (convertSymbols_events env) = 0"
proof (rule count_where_none)
  fix e
  assume "e \<in> set (convertSymbols_events env)"
  with convertSymbols_events_kind [of env] have "is_symbol_event e"
    by (simp add: list_all_iff)
  then show "\<not> is_public_call e"
    by (cases e) simp_all
qed

lemma symbol_events_not_mem:
  assumes "\<not> is_symbol_event e"
  shows "e \<notin> set (convertSymbols_events env)"
  using assms convertSymbols_events_kind [of env] by (auto simp: list_all_iff)

lemma symbol_events_count_other:
  assumes "\<not> is_symbol_event e"
  shows "count_event e (convertSymbols_events env) = 0"
  unfolding count_event_def
  using symbol_events_not_mem [OF assms, of env]
  by (intro count_where_none) auto

subsection \<open>Symbol conversion meets its contract\<close>

lemma names_from_step:
  "stream \<noteq> [] \<Longrightarrow>
   names_from cur stream =
     (cur @ takeWhile (\<lambda>c. c \<noteq> CHR '' '') stream)
       # names_from [] (drop 1 (dropWhile (\<lambda>c. c \<noteq> CHR '' '') stream))"
proof (induction stream arbitrary: cur)
  case Nil
  then show ?case by simp
next
  case (Cons c cs)
  show ?case
  proof (cases "c = CHR '' ''")
    case True
    then show ?thesis by simp
  next
    case False
    show ?thesis
    proof (cases "cs = []")
      case True
      with False show ?thesis by simp
    next
      case nonempty: False
      from Cons.IH [OF nonempty, of "cur @ [c]"] False show ?thesis
        by simp
    qed
  qed
qed

lemma symbol_names_getline:
  assumes "getline stream CHR '' '' = Some (tok, rest)"
  shows "symbol_names stream = tok # symbol_names rest"
proof -
  from assms have ne: "stream \<noteq> []"
    and t: "tok = takeWhile (\<lambda>c. c \<noteq> CHR '' '') stream"
    and r: "rest = drop 1 (dropWhile (\<lambda>c. c \<noteq> CHR '' '') stream)"
    by (auto simp: getline_def split: if_splits)
  from names_from_step [OF ne, of "[]"] t r show ?thesis
    by (simp add: symbol_names_def)
qed

lemma symbol_names_getline_None:
  assumes "getline stream CHR '' '' = None"
  shows "symbol_names stream = []"
  using assms by (simp add: getline_def symbol_names_def split: if_splits)

lemma convert_loop_calls:
  "convert_loop env stream n st =
     (n + int (length (filter (convertible env) (symbol_names stream))),
      st\<lparr>trace := trace st @ concat (map (calls_for_name env) (symbol_names stream))\<rparr>)"
proof (induction "length stream" arbitrary: stream n st rule: less_induct)
  case less
  show ?case
  proof (cases "getline stream CHR '' ''")
    case None
    then show ?thesis
      by (subst convert_loop.simps) (simp add: symbol_names_getline_None)
  next
    case (Some p)
    obtain tok rest where p: "p = (tok, rest)"
      by (cases p)
    with Some have g: "getline stream CHR '' '' = Some (tok, rest)"
      by simp
    then have shorter: "length rest < length stream"
      by (rule getline_shorter)
    note names = symbol_names_getline [OF g]
    show ?thesis
    proof (cases "convertible env tok")
      case True
      then show ?thesis
        using g
        by (subst convert_loop.simps)
           (simp add: less [OF shorter] names calls_for_name_def convertible_def
              collab_defs emit_def Let_def)
    next
      case False
      then show ?thesis
        using g
        by (subst convert_loop.simps)
           (auto simp: less [OF shorter] names calls_for_name_def convertible_def
              collab_defs emit_def Let_def)
    qed
  qed
qed

lemma convertSymbols_calls:
  "convertSymbols env st = st\<lparr>trace := trace st @ symbol_conversion_calls env\<rparr>"
  by (simp add: convertSymbols_def symbol_conversion_calls_def convert_loop_calls
        collab_defs emit_def Let_def)

lemma convertSymbols_events_calls: "convertSymbols_events env = symbol_conversion_calls env"
  by (simp add: convertSymbols_events_def convertSymbols_calls initial_state_def)

lemma count_convert_calls_for_name:
  "count_where is_convert_call (calls_for_name env name) = (if convertible env name then 1 else 0)"
  by (simp add: calls_for_name_def)

lemma count_convert_calls_names:
  "count_where is_convert_call (concat (map (calls_for_name env) names))
     = length (filter (convertible env) names)"
  by (induction names) (simp_all add: count_convert_calls_for_name)

subsection \<open>What loading and unloading do\<close>

lemma loadGamemode_result:
  assumes "\<not> GameMode_IsLoaded st"
  shows "loadGamemode env st =
     st\<lparr>filterscript_loaded := True, mono_loaded := True,
        gamemode_loaded := gamemode_loaded (loadGamemode env st),
        trace := trace st @
          (if filterscript_loaded st then [] else [EvSendRconCommand ''loadfs empty'']) @
          (if mono_loaded st then []
           else [EvMonoLoad (MonoAssemblyDir (cfg env)) (MonoConfigDir (cfg env))
                   (TraceLevel (cfg env))
                   (plugin_bin_dir env @ ''/gamemode/'' @ GameModeNameSpace (cfg env) @ ''.dll'')]) @
          [EvSetCodepage (Codepage (cfg env))] @
          convertSymbols_events env @
          [EvLog ''Gamemode'' [], EvLog ''---------------'' [],
           EvLog ''Loading gamemode: %s:%s''
             [ArgStr (GameModeNameSpace (cfg env)), ArgStr (GameModeClass (cfg env))],
           EvGameModeLoad (GameModeNameSpace (cfg env)) (GameModeClass (cfg env)),
           EvLog (if gamemode_loaded (loadGamemode env st) then ''  Loaded.'' else ''  Failed.'') [],
           EvLog [] []]\<rparr>"
  using assms
  by (simp add: loadGamemode_def convertSymbols_frame collab_defs emit_def Let_def)

lemma loadGamemode_trace:
  assumes "\<not> GameMode_IsLoaded st"
  shows "trace (loadGamemode env st) = trace st @
          (if filterscript_loaded st then [] else [EvSendRconCommand ''loadfs empty'']) @
          (if mono_loaded st then []
           else [EvMonoLoad (MonoAssemblyDir (cfg env)) (MonoConfigDir (cfg env))
                   (TraceLevel (cfg env))
                   (plugin_bin_dir env @ ''/gamemode/'' @ GameModeNameSpace (cfg env) @ ''.dll'')]) @
          [EvSetCodepage (Codepage (cfg env))] @
          convertSymbols_events env @
          [EvLog ''Gamemode'' [], EvLog ''---------------'' [],
           EvLog ''Loading gamemode: %s:%s''
             [ArgStr (GameModeNameSpace (cfg env)), ArgStr (GameModeClass (cfg env))],
           EvGameModeLoad (GameModeNameSpace (cfg env)) (GameModeClass (cfg env)),
           EvLog (if gamemode_loaded (loadGamemode env st) then ''  Loaded.'' else ''  Failed.'') [],
           EvLog [] []]"
  by (subst loadGamemode_result [OF assms]) simp

lemma loadGamemode_flags:
  "filterscript_loaded (loadGamemode env st) = (filterscript_loaded st \<or> \<not> gamemode_loaded st)"
  "mono_loaded (loadGamemode env st) = (mono_loaded st \<or> \<not> gamemode_loaded st)"
  "pAMXFunctions (loadGamemode env st) = pAMXFunctions st"
  by (simp_all add: loadGamemode_def convertSymbols_frame collab_defs emit_def Let_def)

lemma loadGamemode_extends:
  "trace (loadGamemode env st) = trace st @ events_since st (loadGamemode env st)"
proof (cases "GameMode_IsLoaded st")
  case True
  then show ?thesis
    by (simp add: loadGamemode_def events_since_def)
next
  case False
  show ?thesis
    by (simp add: loadGamemode_trace [OF False] events_since_def)
qed

text \<open>
  A load sequence that runs makes the \<open>GameMode::Load\<close> call once, as its third call from
  the end; before it there is no forwarded event, and the filterscript request exactly
  when the flag was not yet set.
\<close>

lemma loadGamemode_events_split:
  assumes "\<not> GameMode_IsLoaded st"
  shows "\<exists>pre. events_since st (loadGamemode env st) =
            pre @ EvGameModeLoad (GameModeNameSpace (cfg env)) (GameModeClass (cfg env)) #
              [EvLog (if gamemode_loaded (loadGamemode env st)
                      then ''  Loaded.'' else ''  Failed.'') [],
               EvLog [] []]
          \<and> EvGameModeLoad (GameModeNameSpace (cfg env)) (GameModeClass (cfg env)) \<notin> set pre
          \<and> count_where is_public_call pre = 0
          \<and> count_event filterscript_request pre = (if filterscript_loaded st then 0 else 1)"
proof -
  let ?pre = "(if filterscript_loaded st then [] else [EvSendRconCommand ''loadfs empty'']) @
          (if mono_loaded st then []
           else [EvMonoLoad (MonoAssemblyDir (cfg env)) (MonoConfigDir (cfg env))
                   (TraceLevel (cfg env))
                   (plugin_bin_dir env @ ''/gamemode/'' @ GameModeNameSpace (cfg env) @ ''.dll'')]) @
          [EvSetCodepage (Codepage (cfg env))] @
          convertSymbols_events env @
          [EvLog ''Gamemode'' [], EvLog ''---------------'' [],
           EvLog ''Loading gamemode: %s:%s''
             [ArgStr (GameModeNameSpace (cfg env)), ArgStr (GameModeClass (cfg env))]]"
  have "events_since st (loadGamemode env st) =
            ?pre @ EvGameModeLoad (GameModeNameSpace (cfg env)) (GameModeClass (cfg env)) #
              [EvLog (if gamemode_loaded (loadGamemode env st)
                      then ''  Loaded.'' else ''  Failed.'') [],
               EvLog [] []]"
    by (simp add: loadGamemode_trace [OF assms] events_since_def)
  moreover have "EvGameModeLoad (GameModeNameSpace (cfg env)) (GameModeClass (cfg env)) \<notin> set ?pre"
    by (simp add: symbol_events_not_mem)
  moreover have "count_where is_public_call ?pre = 0"
    by (simp add: symbol_events_no_public_call)
  moreover have "count_event filterscript_request ?pre = (if filterscript_loaded st then 0 else 1)"
    using symbol_events_count_other [of filterscript_request env]
    by (simp add: count_event_def filterscript_request_def)
  ultimately show ?thesis
    by blast
qed

lemma unloadGamemode_result:
  assumes "GameMode_IsLoaded st"
  shows "unloadGamemode env st =
     st\<lparr>gamemode_loaded := False,
        trace := trace st @
          [EvLog [] [], EvLog ''---------------'' [],
           EvLog ''Unloading gamemode: %s:%s''
             [ArgStr (GameModeNameSpace (cfg env)), ArgStr (GameModeClass (cfg env))],
           EvGameModeUnload, EvLog ''  Unloaded.'' [], EvLog [] []]\<rparr>"
  using assms by (simp add: unloadGamemode_def collab_defs emit_def Let_def)

lemma example_load_succeeds: "GameMode_IsLoaded (loadGamemode example_env initial_state)"
  by (simp add: loadGamemode_def convertSymbols_frame collab_defs emit_def Let_def
        initial_state_def example_env_def)

subsection \<open>Forwarding of ordinary events\<close>

text \<open>
  Claim C1. For every event name other than \<open>OnGameModeInit\<close> and \<open>OnGameModeExit\<close>,
  \<open>OnPublicCall\<close> returns true; when the game mode is loaded it makes exactly one call,
  \<open>GameMode::ProcessPublicCall\<close> with the event, and when it is not loaded it makes no call
  and changes nothing.
\<close>

theorem OnPublicCall_other_events:
  assumes "name \<noteq> ''OnGameModeInit''" and "name \<noteq> ''OnGameModeExit''"
  shows "OnPublicCall env amx name params retval st =
           (True, if GameMode_IsLoaded st
                  then emit (EvGameModeProcessPublicCall amx name params retval) st else st)
       \<and> count_where is_public_call
            (events_since st (snd (OnPublicCall env amx name params retval st)))
           = (if GameMode_IsLoaded st then 1 else 0)"
  using assms by (simp add: OnPublicCall_def GameMode_ProcessPublicCall_def events_since_def)

text \<open>The claim at \<open>OnPlayerConnect\<close>, once with the game mode loaded and once without.\<close>

theorem OnPublicCall_other_events_witness:
  "''OnPlayerConnect'' \<noteq> ''OnGameModeInit'' \<and> ''OnPlayerConnect'' \<noteq> ''OnGameModeExit''
   \<and> OnPublicCall example_env 1 ''OnPlayerConnect'' 2 3 loaded_state =
       (True, emit (EvGameModeProcessPublicCall 1 ''OnPlayerConnect'' 2 3) loaded_state)
   \<and> count_where is_public_call
        (events_since loaded_state
           (snd (OnPublicCall example_env 1 ''OnPlayerConnect'' 2 3 loaded_state))) = 1
   \<and> OnPublicCall example_env 1 ''OnPlayerConnect'' 2 3 initial_state = (True, initial_state)
   \<and> count_where is_public_call
        (events_since initial_state
           (snd (OnPublicCall example_env 1 ''OnPlayerConnect'' 2 3 initial_state))) = 0"
proof -
  have a: "''OnPlayerConnect'' \<noteq> ''OnGameModeInit''"
    and b: "''OnPlayerConnect'' \<noteq> ''OnGameModeExit''"
    by simp_all
  have l: "GameMode_IsLoaded loaded_state" and u: "\<not> GameMode_IsLoaded initial_state"
    by (simp_all add: loaded_state_def initial_state_def GameMode_IsLoaded_def)
  show ?thesis
    using a b
      OnPublicCall_other_events [OF a b, of example_env 1 2 3 loaded_state, unfolded if_P [OF l]]
      OnPublicCall_other_events [OF a b, of example_env 1 2 3 initial_state, unfolded if_not_P [OF u]]
    by blast
qed

subsection \<open>The exit event\<close>

text \<open>
  Claim C2. When \<open>OnPublicCall\<close> receives \<open>OnGameModeExit\<close> while the game mode is loaded,
  the calls it makes are, in this order: \<open>GameMode::ProcessPublicCall\<close> with the exit event,
  three log lines, \<open>GameMode::Unload\<close>, two log lines. So the exit event is forwarded
  exactly once, before the unload, it is not forwarded again by the trailing step, and
  the game mode is not loaded when the call returns.
\<close>

theorem OnPublicCall_exit_when_loaded:
  assumes "GameMode_IsLoaded st"
  shows "fst (OnPublicCall env amx ''OnGameModeExit'' params retval st) = True
       \<and> events_since st (snd (OnPublicCall env amx ''OnGameModeExit'' params retval st)) =
           [EvGameModeProcessPublicCall amx ''OnGameModeExit'' params retval,
            EvLog [] [], EvLog ''---------------'' [],
            EvLog ''Unloading gamemode: %s:%s''
              [ArgStr (GameModeNameSpace (cfg env)), ArgStr (GameModeClass (cfg env))],
            EvGameModeUnload, EvLog ''  Unloaded.'' [], EvLog [] []]
       \<and> count_where is_public_call
            (events_since st (snd (OnPublicCall env amx ''OnGameModeExit'' params retval st))) = 1
       \<and> count_event EvGameModeUnload
            (events_since st (snd (OnPublicCall env amx ''OnGameModeExit'' params retval st))) = 1
       \<and> occurs_before (EvGameModeProcessPublicCall amx ''OnGameModeExit'' params retval)
            EvGameModeUnload
            (events_since st (snd (OnPublicCall env amx ''OnGameModeExit'' params retval st)))
       \<and> \<not> GameMode_IsLoaded (snd (OnPublicCall env amx ''OnGameModeExit'' params retval st))"
proof -
  let ?st1 = "GameMode_ProcessPublicCall amx ''OnGameModeExit'' params retval st"
  have l1: "GameMode_IsLoaded ?st1"
    using assms by (simp add: collab_defs)
  have r: "OnPublicCall env amx ''OnGameModeExit'' params retval st
             = (True, unloadGamemode env ?st1)"
    using assms
    by (simp add: OnPublicCall_def unloadGamemode_result [OF l1]) (simp add: collab_defs)
  show ?thesis
    unfolding r
    by (simp add: unloadGamemode_result [OF l1] events_since_def occurs_before_def count_event_def)
       (simp add: collab_defs)
qed

theorem OnPublicCall_exit_when_loaded_witness:
  "GameMode_IsLoaded loaded_state
   \<and> count_where is_public_call
        (events_since loaded_state
           (snd (OnPublicCall example_env 1 ''OnGameModeExit'' 2 3 loaded_state))) = 1
   \<and> occurs_before (EvGameModeProcessPublicCall 1 ''OnGameModeExit'' 2 3) EvGameModeUnload
        (events_since loaded_state
           (snd (OnPublicCall example_env 1 ''OnGameModeExit'' 2 3 loaded_state)))
   \<and> \<not> GameMode_IsLoaded (snd (OnPublicCall example_env 1 ''OnGameModeExit'' 2 3 loaded_state))"
proof -
  have l: "GameMode_IsLoaded loaded_state"
    by (simp add: loaded_state_def GameMode_IsLoaded_def)
  show ?thesis
    using l OnPublicCall_exit_when_loaded [OF l, of example_env 1 2 3] by blast
qed

text \<open>
  Claim C10. When \<open>OnPublicCall\<close> receives \<open>OnGameModeExit\<close> while the game mode is not
  loaded, it returns true and the state is the one it started from: no call is made, to
  \<open>GameMode::ProcessPublicCall\<close>, \<open>GameMode::Unload\<close> or anything else, and the filterscript
  flag and both lifecycle flags are unchanged.
\<close>

theorem OnPublicCall_exit_when_unloaded:
  assumes "\<not> GameMode_IsLoaded st"
  shows "OnPublicCall env amx ''OnGameModeExit'' params retval st = (True, st)
     \<and> events_since st (snd (OnPublicCall env amx ''OnGameModeExit'' params retval st)) = []"
  using assms by (simp add: OnPublicCall_def events_since_def)

theorem OnPublicCall_exit_when_unloaded_witness:
  "\<not> GameMode_IsLoaded initial_state
   \<and> OnPublicCall example_env 1 ''OnGameModeExit'' 2 3 initial_state = (True, initial_state)"
proof -
  have u: "\<not> GameMode_IsLoaded initial_state"
    by (simp add: initial_state_def GameMode_IsLoaded_def)
  show ?thesis
    using u OnPublicCall_exit_when_unloaded [OF u, of example_env 1 2 3] by simp
qed

subsection \<open>The load sequence\<close>

text \<open>
  Claim C5. \<open>loadGamemode\<close> called while the game mode is loaded returns the state it was
  given: no filterscript request, no runtime load, no \<open>GameMode::Load\<close>. \<open>unloadGamemode\<close>
  called while the game mode is not loaded returns the state it was given: no
  \<open>GameMode::Unload\<close>. Neither has an error result.
\<close>

theorem lifecycle_noop_in_target_state:
  "(GameMode_IsLoaded st \<longrightarrow> loadGamemode env st = st) \<and>
   (\<not> GameMode_IsLoaded st \<longrightarrow> unloadGamemode env st = st)"
  by (simp add: loadGamemode_def unloadGamemode_def)

theorem lifecycle_noop_in_target_state_witness:
  "GameMode_IsLoaded loaded_state \<and> loadGamemode example_env loaded_state = loaded_state
   \<and> \<not> GameMode_IsLoaded initial_state
   \<and> unloadGamemode example_env initial_state = initial_state"
proof -
  have l: "GameMode_IsLoaded loaded_state" and u: "\<not> GameMode_IsLoaded initial_state"
    by (simp_all add: loaded_state_def initial_state_def GameMode_IsLoaded_def)
  show ?thesis
    using l u lifecycle_noop_in_target_state [of loaded_state example_env]
      lifecycle_noop_in_target_state [of initial_state example_env]
    by simp
qed

text \<open>
  Claim C7. When the game mode is not loaded, the calls of \<open>loadGamemode\<close> are, in this
  order: the filterscript request if the flag is not set; \<open>MonoRuntime::Load\<close> if the
  runtime is not loaded, with the entry assembly path
  \<open><plugin-binary-directory>/gamemode/<namespace>.dll\<close>; \<open>set_codepage\<close>; the symbol
  conversion, which for a non-empty list is two header lines, the calls for each name of
  the list in turn, the count of names converted and an empty line; three log lines,
  \<open>GameMode::Load\<close>, and two log lines. The symbol-conversion part is what \<open>convertSymbols\<close>
  does by itself, and the load sequence calls the conversion facility once for each
  convertible name.
\<close>

theorem loadGamemode_step_order:
  assumes "\<not> GameMode_IsLoaded st"
  shows "events_since st (loadGamemode env st) =
          (if filterscript_loaded st then [] else [EvSendRconCommand ''loadfs empty'']) @
          (if MonoRuntime_IsLoaded st then []
           else [EvMonoLoad (MonoAssemblyDir (cfg env)) (MonoConfigDir (cfg env))
                   (TraceLevel (cfg env))
                   (plugin_bin_dir env @ ''/gamemode/'' @ GameModeNameSpace (cfg env) @ ''.dll'')]) @
          [EvSetCodepage (Codepage (cfg env))] @
          (if SymbolFiles (cfg env) = [] then []
           else [EvLog ''Symbol file generation'' [], EvLog ''----------------------'' []] @
                concat (map (calls_for_name env) (symbol_names (SymbolFiles (cfg env)))) @
                [EvLog '' Converted %d files.''
                   [ArgInt (int (length (filter (convertible env)
                                           (symbol_names (SymbolFiles (cfg env))))))],
                 EvLog [] []]) @
          [EvLog ''Gamemode'' [], EvLog ''---------------'' [],
           EvLog ''Loading gamemode: %s:%s''
             [ArgStr (GameModeNameSpace (cfg env)), ArgStr (GameModeClass (cfg env))],
           EvGameModeLoad (GameModeNameSpace (cfg env)) (GameModeClass (cfg env)),
           EvLog (if GameMode_IsLoaded (loadGamemode env st) then ''  Loaded.'' else ''  Failed.'') [],
           EvLog [] []]
     \<and> events_since st (convertSymbols env st) =
          (if SymbolFiles (cfg env) = [] then []
           else [EvLog ''Symbol file generation'' [], EvLog ''----------------------'' []] @
                concat (map (calls_for_name env) (symbol_names (SymbolFiles (cfg env)))) @
                [EvLog '' Converted %d files.''
                   [ArgInt (int (length (filter (convertible env)
                                           (symbol_names (SymbolFiles (cfg env))))))],
                 EvLog [] []])
     \<and> count_where is_convert_call (events_since st (loadGamemode env st))
          = length (filter (convertible env) (symbol_names (SymbolFiles (cfg env))))"
proof -
  have conv: "events_since st (convertSymbols env st) = symbol_conversion_calls env"
    by (simp add: convertSymbols_calls events_since_def)
  have order: "events_since st (loadGamemode env st) =
          (if filterscript_loaded st then [] else [EvSendRconCommand ''loadfs empty'']) @
          (if MonoRuntime_IsLoaded st then []
           else [EvMonoLoad (MonoAssemblyDir (cfg env)) (MonoConfigDir (cfg env))
                   (TraceLevel (cfg env))
                   (plugin_bin_dir env @ ''/gamemode/'' @ GameModeNameSpace (cfg env) @ ''.dll'')]) @
          [EvSetCodepage (Codepage (cfg env))] @
          symbol_conversion_calls env @
          [EvLog ''Gamemode'' [], EvLog ''---------------'' [],
           EvLog ''Loading gamemode: %s:%s''
             [ArgStr (GameModeNameSpace (cfg env)), ArgStr (GameModeClass (cfg env))],
           EvGameModeLoad (GameModeNameSpace (cfg env)) (GameModeClass (cfg env)),
           EvLog (if GameMode_IsLoaded (loadGamemode env st) then ''  Loaded.'' else ''  Failed.'') [],
           EvLog [] []]"
    by (simp add: loadGamemode_trace [OF assms] events_since_def convertSymbols_events_calls
          MonoRuntime_IsLoaded_def GameMode_IsLoaded_def)
  have cnt: "count_where is_convert_call (symbol_conversion_calls env)
          = length (filter (convertible env) (symbol_names (SymbolFiles (cfg env))))"
    by (simp add: symbol_conversion_calls_def count_convert_calls_names symbol_names_def)
  have total: "count_where is_convert_call (events_since st (loadGamemode env st))
          = length (filter (convertible env) (symbol_names (SymbolFiles (cfg env))))"
    unfolding order by (simp add: cnt)
  from order conv total show ?thesis
    unfolding symbol_conversion_calls_def by simp
qed

text \<open>
  The claim from a fresh process with the two-space list: every call of the load
  sequence, in order, with one call of the conversion facility between \<open>set_codepage\<close>
  and \<open>GameMode::Load\<close>.
\<close>

theorem loadGamemode_step_order_witness:
  "\<not> GameMode_IsLoaded initial_state
   \<and> events_since initial_state (loadGamemode example_env initial_state) =
       [EvSendRconCommand ''loadfs empty'',
        EvMonoLoad ''mono/lib'' ''mono/etc'' ''error'' ''plugins/gamemode/GrandLarc.dll'',
        EvSetCodepage 1252,
        EvLog ''Symbol file generation'' [], EvLog ''----------------------'' [],
        EvLog ''Converting: %s'' [ArgStr ''a.dbg''],
        EvIfstreamOpen ''gamemode/a.dbg'',
        EvMonoConvertSymbols ''gamemode/a.dbg'',
        EvLog ''  Converted.'' [],
        EvLog ''Converting: %s'' [ArgStr []],
        EvIfstreamOpen ''gamemode/'',
        EvLog ''  Failed.'' [],
        EvLog ''Converting: %s'' [ArgStr ''b.dbg''],
        EvIfstreamOpen ''gamemode/b.dbg'',
        EvLog ''  Failed.'' [],
        EvLog '' Converted %d files.'' [ArgInt 1], EvLog [] [],
        EvLog ''Gamemode'' [], EvLog ''---------------'' [],
        EvLog ''Loading gamemode: %s:%s'' [ArgStr ''GrandLarc'', ArgStr ''GameMode''],
        EvGameModeLoad ''GrandLarc'' ''GameMode'', EvLog ''  Loaded.'' [], EvLog [] []]
   \<and> count_where is_convert_call
        (events_since initial_state (loadGamemode example_env initial_state)) = 1"
proof -
  have u: "\<not> GameMode_IsLoaded initial_state"
    by (simp add: initial_state_def GameMode_IsLoaded_def)
  have i: "\<not> filterscript_loaded initial_state" "\<not> MonoRuntime_IsLoaded initial_state"
    by (simp_all add: initial_state_def MonoRuntime_IsLoaded_def)
  have n: "cfg example_env = example_config" "plugin_bin_dir example_env = ''plugins''"
    "GetGameModeDirectory example_env = ''gamemode/''"
    "file_openable example_env = (\<lambda>path. path = ''gamemode/a.dbg'')"
    by (simp_all add: example_env_def GetGameModeDirectory_def)
  have names: "symbol_names ''a.dbg  b.dbg'' = [''a.dbg'', [], ''b.dbg'']"
    by (simp add: symbol_names_def)
  show ?thesis
    using u i example_load_succeeds loadGamemode_step_order [OF u, of example_env]
    by (simp add: n example_config_def names calls_for_name_def convertible_def)
qed


text \<open>
  Claim C6. When \<open>OnPublicCall\<close> receives \<open>OnGameModeInit\<close> while the game mode is not
  loaded and the load sequence leaves it loaded, the calls made are those of the load
  sequence followed by one \<open>GameMode::ProcessPublicCall\<close> with the init event: the event
  is forwarded by the trailing step, once, after the \<open>GameMode::Load\<close> call.
\<close>

theorem OnPublicCall_init_forwards_init:
  assumes "\<not> GameMode_IsLoaded st" and "GameMode_IsLoaded (loadGamemode env st)"
  shows "OnPublicCall env amx ''OnGameModeInit'' params retval st =
           (True, emit (EvGameModeProcessPublicCall amx ''OnGameModeInit'' params retval)
                    (loadGamemode env st))
       \<and> events_since st (snd (OnPublicCall env amx ''OnGameModeInit'' params retval st)) =
           events_since st (loadGamemode env st) @
           [EvGameModeProcessPublicCall amx ''OnGameModeInit'' params retval]
       \<and> count_where is_public_call
            (events_since st (snd (OnPublicCall env amx ''OnGameModeInit'' params retval st))) = 1
       \<and> occurs_before (EvGameModeLoad (GameModeNameSpace (cfg env)) (GameModeClass (cfg env)))
            (EvGameModeProcessPublicCall amx ''OnGameModeInit'' params retval)
            (events_since st (snd (OnPublicCall env amx ''OnGameModeInit'' params retval st)))"
proof -
  let ?call = "EvGameModeProcessPublicCall amx ''OnGameModeInit'' params retval"
  let ?load = "EvGameModeLoad (GameModeNameSpace (cfg env)) (GameModeClass (cfg env))"
  let ?st' = "snd (OnPublicCall env amx ''OnGameModeInit'' params retval st)"
  have r: "OnPublicCall env amx ''OnGameModeInit'' params retval st =
             (True, emit ?call (loadGamemode env st))"
    using assms(2) by (simp add: OnPublicCall_def GameMode_ProcessPublicCall_def)
  obtain evs where tr: "trace (loadGamemode env st) = trace st @ evs"
    using loadGamemode_extends [of env st] by blast
  have ev: "events_since st ?st' = events_since st (loadGamemode env st) @ [?call]"
    unfolding r by (simp add: events_since_def tr)
  from loadGamemode_events_split [OF assms(1), of env] obtain pre where
    split: "events_since st (loadGamemode env st) =
              pre @ ?load # [EvLog (if gamemode_loaded (loadGamemode env st)
                                    then ''  Loaded.'' else ''  Failed.'') [], EvLog [] []]"
    and fresh: "?load \<notin> set pre"
    and quiet: "count_where is_public_call pre = 0"
    by blast
  have cnt: "count_where is_public_call (events_since st ?st') = 1"
    by (simp add: ev split quiet)
  have "?call \<notin> set pre"
    using count_where_zeroD [OF quiet, of ?call] by auto
  with fresh have "occurs_before ?load ?call
      (pre @ ?load # [EvLog (if gamemode_loaded (loadGamemode env st)
                             then ''  Loaded.'' else ''  Failed.'') [], EvLog [] [], ?call])"
    by (intro occurs_beforeI) simp_all
  then have ord: "occurs_before ?load ?call (events_since st ?st')"
    by (simp add: ev split)
  from r ev cnt ord show ?thesis
    by simp
qed

theorem OnPublicCall_init_forwards_init_witness:
  "\<not> GameMode_IsLoaded initial_state
   \<and> GameMode_IsLoaded (loadGamemode example_env initial_state)
   \<and> count_where is_public_call
        (events_since initial_state
           (snd (OnPublicCall example_env 1 ''OnGameModeInit'' 2 3 initial_state))) = 1
   \<and> occurs_before (EvGameModeLoad ''GrandLarc'' ''GameMode'')
        (EvGameModeProcessPublicCall 1 ''OnGameModeInit'' 2 3)
        (events_since initial_state
           (snd (OnPublicCall example_env 1 ''OnGameModeInit'' 2 3 initial_state)))"
proof -
  have u: "\<not> GameMode_IsLoaded initial_state"
    by (simp add: initial_state_def GameMode_IsLoaded_def)
  have n: "GameModeNameSpace (cfg example_env) = ''GrandLarc''"
    "GameModeClass (cfg example_env) = ''GameMode''"
    by (simp_all add: example_env_def example_config_def)
  show ?thesis
    using u example_load_succeeds
      OnPublicCall_init_forwards_init [OF u example_load_succeeds, of 1 2 3, unfolded n]
    by blast
qed

subsection \<open>Symbol conversion on the list with two spaces\<close>

lemma convert_two_spaces_events:
  assumes "SymbolFiles (cfg env) = ''a.dbg  b.dbg''"
    and "file_openable env (GameModeDirectory env @ ''a.dbg'')"
    and "\<not> file_openable env (GameModeDirectory env @ ''b.dbg'')"
  shows "convertSymbols env st = st\<lparr>trace := trace st @
          [EvLog ''Symbol file generation'' [], EvLog ''----------------------'' [],
           EvLog ''Converting: %s'' [ArgStr ''a.dbg''],
           EvIfstreamOpen (GameModeDirectory env @ ''a.dbg''),
           EvMonoConvertSymbols (GameModeDirectory env @ ''a.dbg''),
           EvLog ''  Converted.'' [],
           EvLog ''Converting: %s'' [ArgStr []],
           EvIfstreamOpen (GameModeDirectory env),
           EvLog ''  Failed.'' [],
           EvLog ''Converting: %s'' [ArgStr ''b.dbg''],
           EvIfstreamOpen (GameModeDirectory env @ ''b.dbg''),
           EvLog ''  Failed.'' [],
           EvLog '' Converted %d files.'' [ArgInt 1], EvLog [] []]\<rparr>"
proof -
  let ?dir = "GameModeDirectory env"
  have g1: "getline ''a.dbg  b.dbg'' CHR '' '' = Some (''a.dbg'', '' b.dbg'')"
    by (simp add: getline_def)
  have g2: "getline '' b.dbg'' CHR '' '' = Some ([], ''b.dbg'')"
    by (simp add: getline_def)
  have g3: "getline ''b.dbg'' CHR '' '' = Some (''b.dbg'', [])"
    by (simp add: getline_def)
  have g4: "getline [] CHR '' '' = None"
    by (simp add: getline_def)
  have l4: "convert_loop env [] n s = (n, s)" for n s
    by (subst convert_loop.simps) (simp add: g4)
  have l3: "convert_loop env ''b.dbg'' n s =
      (n, s\<lparr>trace := trace s @ [EvLog ''Converting: %s'' [ArgStr ''b.dbg''],
            EvIfstreamOpen (?dir @ ''b.dbg''), EvLog ''  Failed.'' []]\<rparr>)" for n s
    using assms(3)
    by (subst convert_loop.simps) (simp add: g3 l4 collab_defs emit_def Let_def)
  have l2: "convert_loop env '' b.dbg'' n s =
      (n, s\<lparr>trace := trace s @ [EvLog ''Converting: %s'' [ArgStr []],
            EvIfstreamOpen ?dir, EvLog ''  Failed.'' [],
            EvLog ''Converting: %s'' [ArgStr ''b.dbg''],
            EvIfstreamOpen (?dir @ ''b.dbg''), EvLog ''  Failed.'' []]\<rparr>)" for n s
    by (subst convert_loop.simps) (simp add: g2 l3 collab_defs emit_def Let_def)
  have l1: "convert_loop env ''a.dbg  b.dbg'' n s =
      (n + 1, s\<lparr>trace := trace s @ [EvLog ''Converting: %s'' [ArgStr ''a.dbg''],
            EvIfstreamOpen (?dir @ ''a.dbg''), EvMonoConvertSymbols (?dir @ ''a.dbg''),
            EvLog ''  Converted.'' [],
            EvLog ''Converting: %s'' [ArgStr []],
            EvIfstreamOpen ?dir, EvLog ''  Failed.'' [],
            EvLog ''Converting: %s'' [ArgStr ''b.dbg''],
            EvIfstreamOpen (?dir @ ''b.dbg''), EvLog ''  Failed.'' []]\<rparr>)" for n s
    using assms(2)
    by (subst convert_loop.simps) (simp add: g1 l2 collab_defs emit_def Let_def)
  show ?thesis
    by (simp add: convertSymbols_def assms(1) l1 collab_defs emit_def)
qed

text \<open>
  Claim C3, as amended. With an empty symbol-file list \<open>convertSymbols\<close> returns the state
  it was given: no log line and no call to \<open>mono_convert_symbols\<close>. With the list
  \<open>a.dbg\<close>, two spaces, \<open>b.dbg\<close>, where \<open>a.dbg\<close> can be opened and \<open>b.dbg\<close> cannot, the loop
  reads three names, \<open>a.dbg\<close>, the empty name between the two spaces, and \<open>b.dbg\<close>: there
  is one call to \<open>mono_convert_symbols\<close>, one \<open>Converted.\<close> line, a reported count of 1, and
  two \<open>Failed.\<close> lines. Whatever the list is, a load sequence that runs makes the
  \<open>GameMode::Load\<close> call once.
\<close>

theorem convertSymbols_empty_and_two_spaces:
  "(SymbolFiles (cfg env) = [] \<longrightarrow> convertSymbols env st = st)
   \<and> (SymbolFiles (cfg env) = ''a.dbg  b.dbg''
        \<and> file_openable env (GetGameModeDirectory env @ ''a.dbg'')
        \<and> \<not> file_openable env (GetGameModeDirectory env @ ''b.dbg'') \<longrightarrow>
      events_since st (convertSymbols env st) =
          [EvLog ''Symbol file generation'' [], EvLog ''----------------------'' [],
           EvLog ''Converting: %s'' [ArgStr ''a.dbg''],
           EvIfstreamOpen (GetGameModeDirectory env @ ''a.dbg''),
           EvMonoConvertSymbols (GetGameModeDirectory env @ ''a.dbg''),
           EvLog ''  Converted.'' [],
           EvLog ''Converting: %s'' [ArgStr []],
           EvIfstreamOpen (GetGameModeDirectory env),
           EvLog ''  Failed.'' [],
           EvLog ''Converting: %s'' [ArgStr ''b.dbg''],
           EvIfstreamOpen (GetGameModeDirectory env @ ''b.dbg''),
           EvLog ''  Failed.'' [],
           EvLog '' Converted %d files.'' [ArgInt 1], EvLog [] []]
      \<and> count_where is_convert_call (events_since st (convertSymbols env st)) = 1
      \<and> count_event (EvLog ''  Converted.'' []) (events_since st (convertSymbols env st)) = 1
      \<and> count_event (EvLog '' Converted %d files.'' [ArgInt 1])
           (events_since st (convertSymbols env st)) = 1
      \<and> count_event (EvLog ''  Failed.'' []) (events_since st (convertSymbols env st)) = 2)
   \<and> (\<not> GameMode_IsLoaded st \<longrightarrow>
        count_event (EvGameModeLoad (GameModeNameSpace (cfg env)) (GameModeClass (cfg env)))
          (events_since st (loadGamemode env st)) = 1)"
proof -
  have empty: "SymbolFiles (cfg env) = [] \<longrightarrow> convertSymbols env st = st"
    by (simp add: convertSymbols_def)
  have two: "events_since st (convertSymbols env st) =
          [EvLog ''Symbol file generation'' [], EvLog ''----------------------'' [],
           EvLog ''Converting: %s'' [ArgStr ''a.dbg''],
           EvIfstreamOpen (GetGameModeDirectory env @ ''a.dbg''),
           EvMonoConvertSymbols (GetGameModeDirectory env @ ''a.dbg''),
           EvLog ''  Converted.'' [],
           EvLog ''Converting: %s'' [ArgStr []],
           EvIfstreamOpen (GetGameModeDirectory env),
           EvLog ''  Failed.'' [],
           EvLog ''Converting: %s'' [ArgStr ''b.dbg''],
           EvIfstreamOpen (GetGameModeDirectory env @ ''b.dbg''),
           EvLog ''  Failed.'' [],
           EvLog '' Converted %d files.'' [ArgInt 1], EvLog [] []]"
    if "SymbolFiles (cfg env) = ''a.dbg  b.dbg''"
      and "file_openable env (GetGameModeDirectory env @ ''a.dbg'')"
      and "\<not> file_openable env (GetGameModeDirectory env @ ''b.dbg'')"
    using that
    by (simp add: GetGameModeDirectory_def convert_two_spaces_events events_since_def)
  have load: "count_event (EvGameModeLoad (GameModeNameSpace (cfg env)) (GameModeClass (cfg env)))
          (events_since st (loadGamemode env st)) = 1"
    if "\<not> GameMode_IsLoaded st"
  proof -
    let ?load = "EvGameModeLoad (GameModeNameSpace (cfg env)) (GameModeClass (cfg env))"
    from loadGamemode_events_split [OF that, of env] obtain pre where
      split: "events_since st (loadGamemode env st) =
              pre @ ?load # [EvLog (if gamemode_loaded (loadGamemode env st)
                                    then ''  Loaded.'' else ''  Failed.'') [], EvLog [] []]"
      and fresh: "?load \<notin> set pre"
      by blast
    from fresh have "count_event ?load pre = 0"
      unfolding count_event_def by (intro count_where_none) auto
    then show ?thesis
      by (simp add: split count_event_def)
  qed
  from empty two load show ?thesis
    by (simp add: count_event_def)
qed

text \<open>
  The claim as first stated, with exactly one failure logged, is false: in the concrete
  configuration the list is the one named, \<open>a.dbg\<close> can be opened and \<open>b.dbg\<close> cannot, and
  \<open>Failed.\<close> is logged twice.
\<close>

theorem convertSymbols_two_spaces_two_failures:
  "SymbolFiles (cfg example_env) = ''a.dbg  b.dbg''
   \<and> file_openable example_env (GetGameModeDirectory example_env @ ''a.dbg'')
   \<and> \<not> file_openable example_env (GetGameModeDirectory example_env @ ''b.dbg'')
   \<and> count_event (EvLog ''  Failed.'' [])
        (events_since initial_state (convertSymbols example_env initial_state)) = 2
   \<and> count_event (EvLog ''  Failed.'' [])
        (events_since initial_state (convertSymbols example_env initial_state)) \<noteq> 1"
proof -
  have a: "SymbolFiles (cfg example_env) = ''a.dbg  b.dbg''"
    by (simp add: example_env_def example_config_def)
  have b: "file_openable example_env (GameModeDirectory example_env @ ''a.dbg'')"
    by (simp add: example_env_def)
  have c: "\<not> file_openable example_env (GameModeDirectory example_env @ ''b.dbg'')"
    by (simp add: example_env_def)
  show ?thesis
    using a b c
    by (simp add: convert_two_spaces_events [OF a b c] events_since_def count_event_def
          GetGameModeDirectory_def)
qed

theorem convertSymbols_empty_and_two_spaces_witness:
  "SymbolFiles (cfg example_env) = ''a.dbg  b.dbg''
   \<and> file_openable example_env (GetGameModeDirectory example_env @ ''a.dbg'')
   \<and> \<not> file_openable example_env (GetGameModeDirectory example_env @ ''b.dbg'')
   \<and> \<not> GameMode_IsLoaded initial_state
   \<and> count_where is_convert_call
        (events_since initial_state (convertSymbols example_env initial_state)) = 1
   \<and> count_event (EvLog ''  Failed.'' [])
        (events_since initial_state (convertSymbols example_env initial_state)) = 2
   \<and> count_event (EvGameModeLoad ''GrandLarc'' ''GameMode'')
        (events_since initial_state (loadGamemode example_env initial_state)) = 1
   \<and> SymbolFiles (cfg (example_env\<lparr>cfg := example_config\<lparr>SymbolFiles := []\<rparr>\<rparr>)) = []
   \<and> convertSymbols (example_env\<lparr>cfg := example_config\<lparr>SymbolFiles := []\<rparr>\<rparr>) initial_state
       = initial_state"
proof -
  have a: "SymbolFiles (cfg example_env) = ''a.dbg  b.dbg''"
    by (simp add: example_env_def example_config_def)
  have b: "file_openable example_env (GetGameModeDirectory example_env @ ''a.dbg'')"
    by (simp add: example_env_def GetGameModeDirectory_def)
  have c: "\<not> file_openable example_env (GetGameModeDirectory example_env @ ''b.dbg'')"
    by (simp add: example_env_def GetGameModeDirectory_def)
  have d: "\<not> GameMode_IsLoaded initial_state"
    by (simp add: initial_state_def GameMode_IsLoaded_def)
  have e: "SymbolFiles (cfg (example_env\<lparr>cfg := example_config\<lparr>SymbolFiles := []\<rparr>\<rparr>)) = []"
    by simp
  have n: "GameModeNameSpace (cfg example_env) = ''GrandLarc''"
    "GameModeClass (cfg example_env) = ''GameMode''"
    by (simp_all add: example_env_def example_config_def)
  show ?thesis
    using a b c d e
      convertSymbols_empty_and_two_spaces [of example_env initial_state, unfolded n]
      convertSymbols_empty_and_two_spaces
        [of "example_env\<lparr>cfg := example_config\<lparr>SymbolFiles := []\<rparr>\<rparr>" initial_state]
    by blast
qed

subsection \<open>Attach and detach\<close>

text \<open>
  Claim C8. In every state, the calls of the detach entry point \<open>Unload\<close> are
  \<open>GameMode::Unload\<close>, then \<open>MonoRuntime::Unload\<close>, then \<open>sampgdk::Unload\<close>: the game mode
  is unloaded before the runtime, and the runtime unload is made whether or not the
  game mode was loaded.
\<close>

theorem Unload_gamemode_then_runtime:
  "events_since st (Unload st) = [EvGameModeUnload, EvMonoUnload, EvSampgdkUnload]
   \<and> occurs_before EvGameModeUnload EvMonoUnload (events_since st (Unload st))
   \<and> count_event EvGameModeUnload (events_since st (Unload st)) = 1
   \<and> count_event EvMonoUnload (events_since st (Unload st)) = 1
   \<and> \<not> GameMode_IsLoaded (Unload st) \<and> \<not> MonoRuntime_IsLoaded (Unload st)"
  by (simp add: Unload_def collab_defs events_since_def occurs_before_def count_event_def)

text \<open>The claim in a state where the game mode is not loaded.\<close>

theorem Unload_gamemode_then_runtime_witness:
  "\<not> GameMode_IsLoaded initial_state
   \<and> events_since initial_state (Unload initial_state)
       = [EvGameModeUnload, EvMonoUnload, EvSampgdkUnload]
   \<and> occurs_before EvGameModeUnload EvMonoUnload (events_since initial_state (Unload initial_state))"
proof -
  have u: "\<not> GameMode_IsLoaded initial_state"
    by (simp add: initial_state_def GameMode_IsLoaded_def)
  show ?thesis
    using u Unload_gamemode_then_runtime [of initial_state] by blast
qed

text \<open>
  Claim C9. When \<open>sampgdk::Load\<close> fails, the attach entry point \<open>Load\<close> returns false and
  has made that one call only: \<open>pAMXFunctions\<close> is not assigned, nothing is logged and
  \<open>Config::Read\<close> is not called. When \<open>sampgdk::Load\<close> succeeds, \<open>Load\<close> returns true, having
  assigned \<open>pAMXFunctions\<close>, logged the banner and called \<open>Config::Read\<close>.
\<close>

theorem Load_fails_when_sampgdk_fails:
  "(\<not> sampgdk_load_result env (trace st) \<longrightarrow>
      Load env ppData st = (False, emit EvSampgdkLoad st)
      \<and> events_since st (snd (Load env ppData st)) = [EvSampgdkLoad]
      \<and> pAMXFunctions (snd (Load env ppData st)) = pAMXFunctions st)
   \<and> (sampgdk_load_result env (trace st) \<longrightarrow>
      fst (Load env ppData st) = True
      \<and> events_since st (snd (Load env ppData st)) =
          [EvSampgdkLoad, EvLog [] [], EvLog ''SampSharp Plugin'' [], EvLog ''----------------'' [],
           EvLog ''v%s, (C)2014-2015 Tim Potze'' [ArgStr (PLUGIN_VERSION env)], EvLog [] [],
           EvConfigRead]
      \<and> pAMXFunctions (snd (Load env ppData st)) = ppData (PLUGIN_DATA_AMX_EXPORTS env))"
  by (simp add: Load_def collab_defs events_since_def Let_def)

theorem Load_fails_when_sampgdk_fails_witness:
  "\<not> sampgdk_load_result (example_env\<lparr>sampgdk_load_result := (\<lambda>tr. False)\<rparr>) (trace initial_state)
   \<and> Load (example_env\<lparr>sampgdk_load_result := (\<lambda>tr. False)\<rparr>) (\<lambda>i. 100 + i) initial_state
       = (False, emit EvSampgdkLoad initial_state)
   \<and> sampgdk_load_result example_env (trace initial_state)
   \<and> fst (Load example_env (\<lambda>i. 100 + i) initial_state) = True
   \<and> pAMXFunctions (snd (Load example_env (\<lambda>i. 100 + i) initial_state)) = 116"
proof -
  have f: "\<not> sampgdk_load_result (example_env\<lparr>sampgdk_load_result := (\<lambda>tr. False)\<rparr>)
               (trace initial_state)"
    by simp
  have t: "sampgdk_load_result example_env (trace initial_state)"
    by (simp add: example_env_def)
  have k: "PLUGIN_DATA_AMX_EXPORTS example_env = 16"
    by (simp add: example_env_def)
  show ?thesis
    using f t k
      Load_fails_when_sampgdk_fails
        [of "example_env\<lparr>sampgdk_load_result := (\<lambda>tr. False)\<rparr>" initial_state "\<lambda>i. 100 + i"]
      Load_fails_when_sampgdk_fails [of example_env initial_state "\<lambda>i. 100 + i"]
    by simp
qed

subsection \<open>The bootstrap filterscript is requested once\<close>

lemma host_step_filterscript:
  "\<exists>evs. trace (host_step env c st) = trace st @ evs
     \<and> count_event filterscript_request evs =
         (if \<not> filterscript_loaded st \<and> filterscript_loaded (host_step env c st) then 1 else 0)
     \<and> (filterscript_loaded st \<longrightarrow> filterscript_loaded (host_step env c st))"
proof (cases c)
  case (CallLoad ppData)
  then show ?thesis
    by (simp add: Load_def collab_defs Let_def count_event_def filterscript_request_def)
next
  case CallUnload
  then show ?thesis
    by (simp add: Unload_def collab_defs count_event_def filterscript_request_def)
next
  case CallProcessTick
  then show ?thesis
    by (simp add: ProcessTick_def collab_defs count_event_def filterscript_request_def)
next
  case (CallOnPublicCall amx name params retval)
  show ?thesis
  proof (cases "name = ''OnGameModeInit'' \<and> \<not> GameMode_IsLoaded st")
    case True
    let ?L = "loadGamemode env st"
    let ?call = "EvGameModeProcessPublicCall amx name params retval"
    from True have unloaded: "\<not> GameMode_IsLoaded st"
      by simp
    from loadGamemode_events_split [OF unloaded, of env] obtain pre where
      split: "events_since st ?L =
              pre @ EvGameModeLoad (GameModeNameSpace (cfg env)) (GameModeClass (cfg env)) #
                [EvLog (if gamemode_loaded ?L then ''  Loaded.'' else ''  Failed.'') [], EvLog [] []]"
      and req: "count_event filterscript_request pre = (if filterscript_loaded st then 0 else 1)"
      by blast
    have reqL: "count_event filterscript_request (events_since st ?L) =
                  (if filterscript_loaded st then 0 else 1)"
      using req by (simp add: split count_event_def filterscript_request_def)
    have tr: "trace ?L = trace st @ events_since st ?L"
      by (rule loadGamemode_extends)
    have fl: "filterscript_loaded ?L"
      using unloaded by (simp add: loadGamemode_flags GameMode_IsLoaded_def)
    have step: "host_step env c st = (if GameMode_IsLoaded ?L then emit ?call ?L else ?L)"
      using True CallOnPublicCall by (simp add: OnPublicCall_def GameMode_ProcessPublicCall_def)
    show ?thesis
    proof (cases "GameMode_IsLoaded ?L")
      case True
      have "trace (host_step env c st) = trace st @ (events_since st ?L @ [?call])"
        using True by (simp add: step) (subst tr, simp)
      moreover have "count_event filterscript_request (events_since st ?L @ [?call]) =
          (if \<not> filterscript_loaded st \<and> filterscript_loaded (host_step env c st) then 1 else 0)"
        using True fl reqL by (simp add: step count_event_def filterscript_request_def)
      moreover have "filterscript_loaded (host_step env c st)"
        using True fl by (simp add: step)
      ultimately show ?thesis
        by blast
    next
      case False
      have "trace (host_step env c st) = trace st @ events_since st ?L"
        using False tr by (simp add: step)
      moreover have "count_event filterscript_request (events_since st ?L) =
          (if \<not> filterscript_loaded st \<and> filterscript_loaded (host_step env c st) then 1 else 0)"
        using False fl reqL by (simp add: step)
      moreover have "filterscript_loaded (host_step env c st)"
        using False fl by (simp add: step)
      ultimately show ?thesis
        by blast
    qed
  next
    case False
    then show ?thesis
      using CallOnPublicCall
      by (auto simp: OnPublicCall_def loadGamemode_def unloadGamemode_def collab_defs Let_def
            count_event_def filterscript_request_def)
  qed
qed

lemma host_run_filterscript:
  "\<exists>evs. trace (host_run env calls st) = trace st @ evs
     \<and> count_event filterscript_request evs =
         (if \<not> filterscript_loaded st \<and> filterscript_loaded (host_run env calls st) then 1 else 0)
     \<and> (filterscript_loaded st \<longrightarrow> filterscript_loaded (host_run env calls st))"
proof (induction calls arbitrary: st)
  case Nil
  then show ?case
    by (simp add: count_event_def)
next
  case (Cons c calls)
  from host_step_filterscript [of env c st] obtain evs1 where
    t1: "trace (host_step env c st) = trace st @ evs1"
    and c1: "count_event filterscript_request evs1 =
         (if \<not> filterscript_loaded st \<and> filterscript_loaded (host_step env c st) then 1 else 0)"
    and m1: "filterscript_loaded st \<longrightarrow> filterscript_loaded (host_step env c st)"
    by blast
  from Cons.IH [of "host_step env c st"] obtain evs2 where
    t2: "trace (host_run env calls (host_step env c st)) = trace (host_step env c st) @ evs2"
    and c2: "count_event filterscript_request evs2 =
         (if \<not> filterscript_loaded (host_step env c st)
             \<and> filterscript_loaded (host_run env calls (host_step env c st)) then 1 else 0)"
    and m2: "filterscript_loaded (host_step env c st)
             \<longrightarrow> filterscript_loaded (host_run env calls (host_step env c st))"
    by blast
  have "trace (host_run env (c # calls) st) = trace st @ (evs1 @ evs2)"
    by (simp add: t1 t2)
  moreover have "count_event filterscript_request (evs1 @ evs2) =
         (if \<not> filterscript_loaded st \<and> filterscript_loaded (host_run env (c # calls) st) then 1 else 0)"
    using c1 c2 m1 m2 by (auto simp: count_event_def)
  moreover have "filterscript_loaded st \<longrightarrow> filterscript_loaded (host_run env (c # calls) st)"
    using m1 m2 by simp
  ultimately show ?case
    by blast
qed

lemma example_run_requests:
  "filterscript_loaded (host_run example_env example_calls initial_state)"
  by code_simp

text \<open>
  Claim C4. For every sequence of calls of the entry points made from a fresh process,
  the filterscript request occurs in the calls made exactly when the flag
  \<open>filterscript_loaded\<close> is set at the end, so at most once; and from any state in which
  the flag is set, every sequence of entry-point calls leaves it set and makes no
  filterscript request.
\<close>

theorem filterscript_requested_at_most_once:
  "count_event filterscript_request (trace (host_run env calls initial_state))
     = (if filterscript_loaded (host_run env calls initial_state) then 1 else 0)
   \<and> count_event filterscript_request (trace (host_run env calls initial_state)) \<le> 1
   \<and> (filterscript_loaded st \<longrightarrow>
        filterscript_loaded (host_run env calls st)
        \<and> count_event filterscript_request (events_since st (host_run env calls st)) = 0)"
proof -
  from host_run_filterscript [of env calls initial_state] obtain evs0 where
    t0: "trace (host_run env calls initial_state) = trace initial_state @ evs0"
    and c0: "count_event filterscript_request evs0 =
         (if \<not> filterscript_loaded initial_state
             \<and> filterscript_loaded (host_run env calls initial_state)
          then 1 else 0)"
    by blast
  have a: "count_event filterscript_request (trace (host_run env calls initial_state))
     = (if filterscript_loaded (host_run env calls initial_state) then 1 else 0)"
    using c0 by (simp add: t0) (simp add: initial_state_def)
  from host_run_filterscript [of env calls st] obtain evs where
    t: "trace (host_run env calls st) = trace st @ evs"
    and c: "count_event filterscript_request evs =
         (if \<not> filterscript_loaded st \<and> filterscript_loaded (host_run env calls st)
          then 1 else 0)"
    and m: "filterscript_loaded st \<longrightarrow> filterscript_loaded (host_run env calls st)"
    by blast
  have b: "filterscript_loaded st \<longrightarrow>
        filterscript_loaded (host_run env calls st)
        \<and> count_event filterscript_request (events_since st (host_run env calls st)) = 0"
    using c m by (simp add: events_since_def t)
  from a b show ?thesis
    by simp
qed

text \<open>
  Two init/exit cycles and a detach from a fresh process make the request once; the same
  calls from a state with the flag set make none.
\<close>

theorem filterscript_requested_at_most_once_witness:
  "count_event filterscript_request (trace (host_run example_env example_calls initial_state)) = 1
   \<and> filterscript_loaded loaded_state
   \<and> filterscript_loaded (host_run example_env example_calls loaded_state)
   \<and> count_event filterscript_request
        (events_since loaded_state (host_run example_env example_calls loaded_state)) = 0"
proof -
  have l: "filterscript_loaded loaded_state"
    by (simp add: loaded_state_def)
  show ?thesis
    using l example_run_requests
      filterscript_requested_at_most_once [of example_env example_calls loaded_state]
    by simp
qed

end
